theory Spec2Isabelle
  imports Complex_Main "HOL-Library.Word" "HOL-Library.Signed_Division"
begin

unbundle bit_operations_syntax

section \<open>Numbers\<close>

text \<open>
  Go's \<open>int32\<close> (also \<open>rune\<close> and \<open>fixed.Int26_6\<close>) is a 32-bit word read as two's
  complement with \<open>sint\<close>; \<open>uint8\<close> is an 8-bit word. Go's \<open>int\<close> (64 bits on every
  platform the OpenGL binding supports) is modelled by \<open>int\<close>: the values of that type
  in \<open>font.go\<close> are pixel coordinates, strides and slice lengths, far from the 64-bit
  limit, while every narrowing conversion \<open>int32(...)\<close> is written out with
  \<open>word_of_int\<close>.

  \<open>float32\<close> and \<open>float64\<close> values are modelled by the rational number they denote
  and each arithmetic step is taken as exact. IEEE arithmetic agrees with that as long
  as the values are integers or multiples of 1/64 of magnitude below \<open>2 ^ 18\<close>, which
  is what the glyph and face metrics of an atlas are; rounding error, infinities and
  NaN are outside the model.
\<close>

type_synonym int32 = "32 word"
type_synonym Int26_6 = "32 word"
type_synonym byte = "8 word"
type_synonym float32 = rat
type_synonym float64 = rat

definition minASCII :: nat where
  "minASCII = 32"

text \<open>\<open>unicode.MaxASCII\<close> is \<open>'\u007F'\<close>.\<close>

definition MaxASCII :: nat where
  "MaxASCII = 127"

text \<open>\<open>float32(x)\<close> and \<open>float64(x)\<close> for an \<open>int32\<close> value \<open>x\<close>.\<close>

definition float_of_int32 :: "int32 \<Rightarrow> rat" where
  "float_of_int32 x = of_int (sint x)"



text \<open>\<open>math.Round\<close>: the nearest integer, halfway cases away from zero.\<close>

definition math_Round :: "float64 \<Rightarrow> float64" where
  "math_Round f = of_int (if 0 \<le> f then \<lfloor>f + 1 / 2\<rfloor> else \<lceil>f - 1 / 2\<rceil>)"


text \<open>
  \<open>func (x Int26_6) Ceil() int { return int((x + 0x3f) >> 6) }\<close> of
  \<open>golang.org/x/image/math/fixed\<close>; the addition is on \<open>int32\<close> and wraps.
\<close>

definition Ceil_26_6 :: "Int26_6 \<Rightarrow> int" where
  "Ceil_26_6 x = sint (signed_drop_bit 6 (x + 0x3f))"

text \<open>
  \<open>int26_6ToFloat32\<close> (font.go, lines 23 to 27). \<open>x >> 6\<close> on a signed integer is the
  arithmetic shift; \<open>x & 0x3F\<close> keeps the six low bits.
\<close>

definition int26_6ToFloat32 :: "Int26_6 \<Rightarrow> float32" where
  "int26_6ToFloat32 x =
     (let top = float_of_int32 (signed_drop_bit 6 x);
          bottom = float_of_int32 (x AND 0x3F) / 64
      in top + bottom)"

section \<open>Data model\<close>

type_synonym AlignH = int




definition AlignLeft :: AlignH where
  "AlignLeft = -1"


definition AlignRight :: AlignH where
  "AlignRight = 1"



text \<open>\<open>image.Point\<close> and \<open>image.Rectangle\<close> of the standard library.\<close>

record image_Point =
  X_img :: int
  Y_img :: int

record image_Rectangle =
  Min_img :: image_Point
  Max_img :: image_Point

definition Dx :: "image_Rectangle \<Rightarrow> int" where
  "Dx r = X_img (Max_img r) - X_img (Min_img r)"

definition Dy :: "image_Rectangle \<Rightarrow> int" where
  "Dy r = Y_img (Max_img r) - Y_img (Min_img r)"

text \<open>
  The documentation of \<open>image.Rectangle\<close>: "It is well-formed if Min.X <= Max.X and
  likewise for Y."
\<close>

definition well_formed :: "image_Rectangle \<Rightarrow> bool" where
  "well_formed r \<longleftrightarrow> X_img (Min_img r) \<le> X_img (Max_img r) \<and> Y_img (Min_img r) \<le> Y_img (Max_img r)"

text \<open>\<open>fixed.Point26_6\<close> and \<open>fixed.Rectangle26_6\<close>.\<close>

record Point26_6 =
  X_fx :: Int26_6
  Y_fx :: Int26_6

record Rectangle26_6 =
  Min_fx :: Point26_6
  Max_fx :: Point26_6

record runeInfo =
  row :: int32
  width :: int32
  height :: int32
  bearingX :: float32
  bearingY :: float32
  advance :: float32

record metrics =
  Height :: float32
  Ascent :: float32
  Descent :: float32
  XHeight :: float32
  CapHeight :: float32
  CaretSlope :: image_Point

text \<open>\<open>Texture\<close> (declared next to the cube map); its fields carry the suffix \<open>_tex\<close>.\<close>

record Texture =
  id_tex :: "32 word"
  width_tex :: int32
  height_tex :: int32
  format_tex :: "32 word"
  alignment_tex :: int32
  texelSize_tex :: int32

record FontInfo =
  texture :: Texture
  runeMap :: "runeInfo list"
  metrics :: metrics

text \<open>
  Errors and panics are values. \<open>WrapErrNoFontGlyph\<close> is the error that \<open>fmt.Errorf\<close>
  makes around \<open>ErrNoFontGlyph\<close> from the font name, the size and the character,
  \<open>WrapErrNoFontGlyphA\<close> the one of line 234 for the glyph of \<open>A\<close>; \<open>LibError\<close> is an
  error handed up from a library call unchanged.
\<close>

datatype error =
    PanicIndexOutOfRange
  | PanicNilDereference
  | PanicDivideByZero
  | PanicSliceBounds
  | WrapErrNoFontGlyph string int32 int
  | WrapErrNoFontGlyphA string int32
  | LibError string

section \<open>Strings\<close>





section \<open>Text mesh and string metrics\<close>

















section \<open>Rasterizer, device and cache\<close>

text \<open>
  \<open>image.Alpha\<close>, the only implementation of \<open>image.Image\<close> that \<open>LoadFontTexture\<close>
  accepts as a glyph mask; every other mask, the nil interface included, is
  \<open>OtherImage\<close>. \<open>Pix\<close> is taken with its capacity equal to its length, as
  \<open>image.NewAlpha\<close> makes it.
\<close>

record image_Alpha =
  Pix :: "byte list"
  Stride :: int
  Rect :: image_Rectangle

datatype image_Image = Alpha image_Alpha | OtherImage

text \<open>
  A \<open>font.Face\<close> as far as \<open>LoadFontTexture\<close> uses it: \<open>Glyph(dot, r)\<close> returns the
  rounded rectangle, the mask, the mask point, the advance and \<open>ok\<close>; \<open>GlyphBounds(r)\<close>
  the precise bounds, the advance and \<open>ok\<close>. The glyph cache inside the face is not
  modelled: a face answers the same call the same way.
\<close>

record Face =
  Glyph :: "Point26_6 \<Rightarrow> int \<Rightarrow> image_Rectangle \<times> image_Image \<times> image_Point \<times> Int26_6 \<times> bool"
  GlyphBounds :: "int \<Rightarrow> Rectangle26_6 \<times> Int26_6 \<times> bool"

text \<open>\<open>font.Metrics\<close>, in 26.6 fixed point.\<close>

record font_Metrics =
  Height_fx :: Int26_6
  Ascent_fx :: Int26_6
  Descent_fx :: Int26_6
  XHeight_fx :: Int26_6
  CapHeight_fx :: Int26_6
  CaretSlope_fx :: image_Point

text \<open>
  The calls that leave \<open>LoadFontTexture\<close>: reading the font file, rasterizing a glyph
  (\<open>face.Glyph\<close>), creating the texture with its pixels (\<open>gl.TexImage2D\<close> inside
  \<open>NewTexture\<close>) and setting a texture parameter.
\<close>

datatype event =
    EvReadFile string
  | EvGlyph int
  | EvTexImage2D int32 int32 "byte list"
  | EvTexParameter "32 word" "32 word" int32

text \<open>
  What \<open>LoadFontTexture\<close> is given by its surroundings: the file system, the two font
  parsers, the face constructors and the texture name that \<open>gl.GenTextures\<close> hands out
  (which may depend on the calls made so far). The parsed fonts are opaque, hence the
  type parameters. \<open>opentype_NewFace\<close> stands for \<open>opentype.NewFace\<close> followed by
  \<open>Metrics()\<close>, the only use made of that face.
\<close>

record ('ttf, 'sfnt) env =
  ReadFile :: "string \<Rightarrow> error + byte list"
  truetype_Parse :: "byte list \<Rightarrow> error + 'ttf"
  truetype_NewFace :: "'ttf \<Rightarrow> float64 \<Rightarrow> Face"
  sfnt_Parse :: "byte list \<Rightarrow> error + 'sfnt"
  opentype_NewFace :: "'sfnt \<Rightarrow> float64 \<Rightarrow> error + font_Metrics"
  gl_GenTextures :: "event list \<Rightarrow> 32 word"

text \<open>
  The state that outlives a call: the package variable \<open>fontMap\<close>, \<open>None\<close> while it is
  the nil map, keyed by \<open>fontKey\<close> (font name and size); and the trace of the calls made
  to the file system, the rasterizer and the graphics device.
\<close>

type_synonym fontKey = "string \<times> int32"

record world =
  fontMap :: "(fontKey \<rightharpoonup> FontInfo) option"
  trace :: "event list"

text \<open>The entries of the cache; reading the nil map finds nothing.\<close>

definition entries :: "world \<Rightarrow> fontKey \<rightharpoonup> FontInfo" where
  "entries w = (case fontMap w of None \<Rightarrow> Map.empty | Some m \<Rightarrow> m)"

text \<open>
  The accumulators of the glyph loop: \<open>runeMap\<close>, \<open>glyphBytes\<close>, \<open>currentIndex\<close>. In
  the definitions below a local variable of the source whose name is taken by a
  constant (\<open>mask\<close>, \<open>advance\<close>, \<open>row\<close>, \<open>end\<close>, \<open>width\<close>, \<open>height\<close>) carries a prime.
\<close>

record build =
  runeMap_b :: "runeInfo list"
  glyphBytes_b :: "byte list"
  currentIndex_b :: int32

text \<open>
  Lines 198 to 200: the array of \<open>unicode.MaxASCII - minASCII\<close> zero records, the nil
  byte slice and the index 0.
\<close>

definition zero_runeInfo :: runeInfo where
  "zero_runeInfo = \<lparr>row = 0, width = 0, height = 0, bearingX = 0, bearingY = 0, advance = 0\<rparr>"

definition initial_build :: build where
  "initial_build =
     \<lparr>runeMap_b = replicate (MaxASCII - minASCII) zero_runeInfo, glyphBytes_b = [], currentIndex_b = 0\<rparr>"

text \<open>Lines 214 to 221: the record of one glyph.\<close>

definition makeRuneInfo :: "int32 \<Rightarrow> image_Rectangle \<Rightarrow> Rectangle26_6 \<Rightarrow> Int26_6 \<Rightarrow> runeInfo" where
  "makeRuneInfo currentIndex roundedRect accurateRect advance' =
     \<lparr>row = currentIndex,
      width = word_of_int (Dx roundedRect),
      height = word_of_int (Dy roundedRect),
      bearingX = math_Round (of_int (Ceil_26_6 (X_fx (Min_fx accurateRect)))),
      bearingY = of_int (Ceil_26_6 (Y_fx (Max_fx accurateRect))),
      advance = math_Round (int26_6ToFloat32 advance')\<rparr>"

text \<open>
  Lines 224 to 229, for the rows still to copy: \<open>glyph.Pix[beg:end]\<close> panics unless
  \<open>0 \<le> beg \<le> end \<le> cap(glyph.Pix)\<close>.
\<close>

fun copyRows ::
  "image_Alpha \<Rightarrow> image_Point \<Rightarrow> nat list \<Rightarrow> byte list \<times> int32 \<Rightarrow> error + byte list \<times> int32"
where
  "copyRows glyph maskp [] acc = Inr acc"
| "copyRows glyph maskp (row' # rows) (glyphBytes, currentIndex) =
     (let beg = (Y_img maskp + int row') * Stride glyph;
          end' = (Y_img maskp + int row' + 1) * Stride glyph
      in if 0 \<le> beg \<and> beg \<le> end' \<and> end' \<le> int (length (Pix glyph))
         then copyRows glyph maskp rows
                (glyphBytes @ take (nat (end' - beg)) (drop (nat beg) (Pix glyph)),
                 currentIndex + 1)
         else Inl PanicSliceBounds)"

text \<open>Lines 202 to 229: the body of the glyph loop for the character code \<open>i\<close>.\<close>

definition glyphStep :: "Face \<Rightarrow> string \<Rightarrow> int32 \<Rightarrow> nat \<Rightarrow> build \<Rightarrow> error + build" where
  "glyphStep face fontName fontSize i b =
     (let c = int i
      in case Glyph face \<lparr>X_fx = 0, Y_fx = 0\<rparr> c of
           (roundedRect, mask', maskp, advance', okGlyph) \<Rightarrow>
             if \<not> okGlyph then Inl (WrapErrNoFontGlyph fontName fontSize c)
             else
               (case GlyphBounds face c of
                  (accurateRect, ignored, okBounds) \<Rightarrow>
                    (let okCast = (case mask' of Alpha glyph \<Rightarrow> True | OtherImage \<Rightarrow> False)
                     in if \<not> okBounds \<or> \<not> okCast
                        then Inl (WrapErrNoFontGlyph fontName fontSize c)
                        else
                          (case mask' of
                             OtherImage \<Rightarrow> Inl PanicNilDereference
                           | Alpha glyph \<Rightarrow>
                               (case copyRows glyph maskp [0..<nat (Dy roundedRect)]
                                       (glyphBytes_b b, currentIndex_b b) of
                                  Inl e \<Rightarrow> Inl e
                                | Inr (glyphBytes', currentIndex') \<Rightarrow>
                                    Inr \<lparr>runeMap_b = (runeMap_b b)
                                           [i - minASCII :=
                                              makeRuneInfo (currentIndex_b b) roundedRect
                                                accurateRect advance'],
                                         glyphBytes_b = glyphBytes',
                                         currentIndex_b = currentIndex'\<rparr>)))))"

text \<open>
  Lines 201 to 230: the loop over the character codes still to do. Each turn calls the
  rasterizer, whether it succeeds or not.
\<close>

fun glyphLoop ::
  "Face \<Rightarrow> string \<Rightarrow> int32 \<Rightarrow> nat list \<Rightarrow> build \<Rightarrow> event list \<Rightarrow> (error + build) \<times> event list"
where
  "glyphLoop face fontName fontSize [] b tr = (Inr b, tr)"
| "glyphLoop face fontName fontSize (i # is) b tr =
     (case glyphStep face fontName fontSize i b of
        Inl e \<Rightarrow> (Inl e, tr @ [EvGlyph (int i)])
      | Inr b' \<Rightarrow> glyphLoop face fontName fontSize is b' (tr @ [EvGlyph (int i)]))"

text \<open>
  \<open>NewTexture\<close> (declared next to the cube map), given the name \<open>newId\<close> that
  \<open>gl.GenTextures\<close> writes into \<open>t.id\<close>: \<open>&data[0]\<close> panics for a slice that is not nil
  and has no element; no path returns an error.
\<close>

definition NewTexture ::
  "32 word \<Rightarrow> int32 \<Rightarrow> int32 \<Rightarrow> byte list option \<Rightarrow> int \<Rightarrow> int32 \<Rightarrow> int32 \<Rightarrow> error + Texture"
where
  "NewTexture newId width' height' data format alignment texelSize =
     (if data = Some [] then Inl PanicIndexOutOfRange
      else Inr \<lparr>id_tex = newId, width_tex = width', height_tex = height',
                format_tex = word_of_int format, alignment_tex = alignment,
                texelSize_tex = texelSize\<rparr>)"

text \<open>\<open>gl.RED\<close>, \<open>gl.TEXTURE_MIN_FILTER\<close>, \<open>gl.TEXTURE_MAG_FILTER\<close> and \<open>gl.NEAREST\<close>.\<close>

definition gl_RED :: int where
  "gl_RED = 0x1903"

definition gl_TEXTURE_MIN_FILTER :: "32 word" where
  "gl_TEXTURE_MIN_FILTER = 0x2801"

definition gl_TEXTURE_MAG_FILTER :: "32 word" where
  "gl_TEXTURE_MAG_FILTER = 0x2800"

definition gl_NEAREST :: int32 where
  "gl_NEAREST = 0x2600"

text \<open>Lines 257 to 265: the face metrics as floats.\<close>

definition convertMetrics :: "font_Metrics \<Rightarrow> metrics" where
  "convertMetrics otfMetrics =
     \<lparr>Height = int26_6ToFloat32 (Height_fx otfMetrics),
      Ascent = int26_6ToFloat32 (Ascent_fx otfMetrics),
      Descent = int26_6ToFloat32 (Descent_fx otfMetrics),
      XHeight = int26_6ToFloat32 (XHeight_fx otfMetrics),
      CapHeight = int26_6ToFloat32 (CapHeight_fx otfMetrics),
      CaretSlope = CaretSlope_fx otfMetrics\<rparr>"

text \<open>
  Lines 232 to 267, after the glyph loop: the stride of the mask of \<open>A\<close> is the texture
  width, \<open>len(glyphBytes) / glyph.Stride\<close> (an integer division that truncates, and
  panics for a zero stride) the height. \<open>glyphBytes\<close> is the nil slice as long as
  nothing was appended.
\<close>

definition finishFont ::
  "('ttf, 'sfnt) env \<Rightarrow> Face \<Rightarrow> 'sfnt \<Rightarrow> string \<Rightarrow> int32 \<Rightarrow> build \<Rightarrow> event list
     \<Rightarrow> (error + FontInfo) \<times> event list"
where
  "finishFont env face sfntFont fontName fontSize b tr =
     (case Glyph face \<lparr>X_fx = 0, Y_fx = 0\<rparr> 65 of
        (roundedRect, mask', maskp, advance', aOK) \<Rightarrow>
          (let tr1 = tr @ [EvGlyph 65]
           in if \<not> aOK then (Inl (WrapErrNoFontGlyphA fontName fontSize), tr1)
              else
                (case mask' of
                   OtherImage \<Rightarrow> (Inl PanicNilDereference, tr1)
                 | Alpha glyph \<Rightarrow>
                     if Stride glyph = 0 then (Inl PanicDivideByZero, tr1)
                     else
                       (let texWidth = word_of_int (Stride glyph) :: int32;
                            texHeight = word_of_int (int (length (glyphBytes_b b)) sdiv Stride glyph) :: int32
                        in case NewTexture (gl_GenTextures env tr1) texWidth texHeight
                                  (if glyphBytes_b b = [] then None else Some (glyphBytes_b b))
                                  gl_RED 1 1 of
                             Inl err \<Rightarrow> (Inl err, tr1)
                           | Inr fontTexture \<Rightarrow>
                               (let tr2 = tr1 @ [EvTexImage2D texWidth texHeight (glyphBytes_b b),
                                      EvTexParameter (id_tex fontTexture) gl_TEXTURE_MIN_FILTER gl_NEAREST,
                                      EvTexParameter (id_tex fontTexture) gl_TEXTURE_MAG_FILTER gl_NEAREST]
                                in case opentype_NewFace env sfntFont (float_of_int32 fontSize) of
                                     Inl err \<Rightarrow> (Inl err, tr2)
                                   | Inr otfMetrics \<Rightarrow>
                                       (Inr \<lparr>texture = fontTexture, runeMap = runeMap_b b,
                                             metrics = convertMetrics otfMetrics\<rparr>, tr2))))))"

text \<open>Lines 179 to 230: the file is read and parsed twice, then the glyph loop runs.\<close>

definition buildFont ::
  "('ttf, 'sfnt) env \<Rightarrow> string \<Rightarrow> int32 \<Rightarrow> event list \<Rightarrow> (error + FontInfo) \<times> event list"
where
  "buildFont env fontName fontSize tr =
     (let tr1 = tr @ [EvReadFile fontName]
      in case ReadFile env fontName of
           Inl err \<Rightarrow> (Inl err, tr1)
         | Inr fontBytes \<Rightarrow>
             (case truetype_Parse env fontBytes of
                Inl err \<Rightarrow> (Inl err, tr1)
              | Inr ttfFont \<Rightarrow>
                  (let face = truetype_NewFace env ttfFont (float_of_int32 fontSize);
                       tr2 = tr1 @ [EvReadFile fontName]
                   in case ReadFile env fontName of
                        Inl err \<Rightarrow> (Inl err, tr2)
                      | Inr fontBytes' \<Rightarrow>
                          (case sfnt_Parse env fontBytes' of
                             Inl err \<Rightarrow> (Inl err, tr2)
                           | Inr sfntFont \<Rightarrow>
                               (case glyphLoop face fontName fontSize [minASCII..<MaxASCII]
                                       initial_build tr2 of
                                  (Inl err, tr3) \<Rightarrow> (Inl err, tr3)
                                | (Inr b, tr3) \<Rightarrow>
                                    finishFont env face sfntFont fontName fontSize b tr3)))))"

text \<open>Lines 172 to 174: the nil map is replaced by an empty one.\<close>

definition initFontMap :: "world \<Rightarrow> world" where
  "initFontMap w = (case fontMap w of None \<Rightarrow> w\<lparr>fontMap := Some Map.empty\<rparr> | Some m \<Rightarrow> w)"

text \<open>
  \<open>LoadFontTexture\<close> (lines 171 to 270): a cached value is returned as it is, and a font
  that was built is stored under its key (line 268) before it is returned.
\<close>

definition LoadFontTexture ::
  "('ttf, 'sfnt) env \<Rightarrow> string \<Rightarrow> int32 \<Rightarrow> world \<Rightarrow> (error + FontInfo) \<times> world"
where
  "LoadFontTexture env fontName fontSize w0 =
     (let w = initFontMap w0
      in case entries w (fontName, fontSize) of
           Some val \<Rightarrow> (Inr val, w)
         | None \<Rightarrow>
             (case buildFont env fontName fontSize (trace w) of
                (Inl err, tr) \<Rightarrow> (Inl err, w\<lparr>trace := tr\<rparr>)
              | (Inr InfoLoaded, tr) \<Rightarrow>
                  (Inr InfoLoaded,
                   w\<lparr>fontMap := Some ((entries w)((fontName, fontSize) \<mapsto> InfoLoaded)),
                     trace := tr\<rparr>)))"

text \<open>
  What a face answers for the character code \<open>i\<close>: the rounded rectangle, the mask, the
  advance and the precise bounds; the number of rows the inner loop copies for it
  (none for a rectangle of negative height), and the stride of its mask.
\<close>

definition rectOf :: "Face \<Rightarrow> nat \<Rightarrow> image_Rectangle" where
  "rectOf face i = fst (Glyph face \<lparr>X_fx = 0, Y_fx = 0\<rparr> (int i))"

definition maskOf :: "Face \<Rightarrow> nat \<Rightarrow> image_Image" where
  "maskOf face i = fst (snd (Glyph face \<lparr>X_fx = 0, Y_fx = 0\<rparr> (int i)))"

definition advanceOf :: "Face \<Rightarrow> nat \<Rightarrow> Int26_6" where
  "advanceOf face i = fst (snd (snd (snd (Glyph face \<lparr>X_fx = 0, Y_fx = 0\<rparr> (int i)))))"

definition boundsOf :: "Face \<Rightarrow> nat \<Rightarrow> Rectangle26_6" where
  "boundsOf face i = fst (GlyphBounds face (int i))"

definition rowsOf :: "Face \<Rightarrow> nat \<Rightarrow> nat" where
  "rowsOf face i = nat (Dy (rectOf face i))"

definition strideOf :: "Face \<Rightarrow> nat \<Rightarrow> int" where
  "strideOf face i = (case maskOf face i of Alpha glyph \<Rightarrow> Stride glyph | OtherImage \<Rightarrow> 0)"

text \<open>
  What the turns of the glyph loop for the character codes \<open>is\<close> leave in \<open>runeMap\<close>,
  starting from the running index \<open>ci\<close>, when none of them fails.
\<close>

fun placed :: "Face \<Rightarrow> nat list \<Rightarrow> int32 \<Rightarrow> runeInfo list \<Rightarrow> runeInfo list" where
  "placed face [] ci rm = rm"
| "placed face (i # is) ci rm =
     placed face is (ci + of_nat (rowsOf face i))
       (rm[i - minASCII := makeRuneInfo ci (rectOf face i) (boundsOf face i) (advanceOf face i)])"

text \<open>The face that \<open>LoadFontTexture\<close> rasterizes with (lines 182 to 188), when there is one.\<close>

definition font_face :: "('ttf, 'sfnt) env \<Rightarrow> string \<Rightarrow> int32 \<Rightarrow> Face option" where
  "font_face env fontName fontSize =
     (case ReadFile env fontName of
        Inl err \<Rightarrow> None
      | Inr fontBytes \<Rightarrow>
          (case truetype_Parse env fontBytes of
             Inl err \<Rightarrow> None
           | Inr ttfFont \<Rightarrow> Some (truetype_NewFace env ttfFont (float_of_int32 fontSize))))"

text \<open>
  Row contiguity of a glyph array: the first row is 0 and every next row is the row
  before plus the height before, in \<open>int32\<close> arithmetic.
\<close>

definition rows_contiguous :: "runeInfo list \<Rightarrow> bool" where
  "rows_contiguous rm \<longleftrightarrow>
     rm \<noteq> [] \<and> row (rm ! 0) = 0
     \<and> list_all (\<lambda>i. row (rm ! Suc i) = row (rm ! i) + height (rm ! i)) [0..<length rm - 1]"

text \<open>
  Two properties of the rasterizer's answers over the supported range: every rounded
  rectangle is well-formed, and every mask has the same stride \<open>s\<close>, the byte stride of
  the rasterizer's bitmap format.
\<close>

definition rects_well_formed :: "Face \<Rightarrow> bool" where
  "rects_well_formed face \<longleftrightarrow> list_all (\<lambda>i. well_formed (rectOf face i)) [minASCII..<MaxASCII]"

definition uniform_stride :: "Face \<Rightarrow> int \<Rightarrow> bool" where
  "uniform_stride face s \<longleftrightarrow> list_all (\<lambda>i. strideOf face i = s) [minASCII..<MaxASCII]"

text \<open>Further calls of \<open>LoadFontTexture\<close>, one after the other; only the state is kept.\<close>

fun calls :: "(('ttf, 'sfnt) env \<times> string \<times> int32) list \<Rightarrow> world \<Rightarrow> world" where
  "calls [] w = w"
| "calls ((env, fontName, fontSize) # cs) w =
     calls cs (snd (LoadFontTexture env fontName fontSize w))"

section \<open>A sample rasterizer\<close>

text \<open>
  An environment for concrete runs. Every glyph is one pixel wide and two rows high,
  with its precise left edge at 1.25 pixels (80 in 26.6 fixed point) and an advance of
  9.625 pixels; the mask has a stride of 2. The file \<open>font.ttf\<close> has every glyph, the
  file \<open>partial.ttf\<close> lacks the glyph of code 100, no other file exists.
  \<open>sample_atlas\<close> is the atlas that \<open>LoadFontTexture\<close> builds from \<open>font.ttf\<close>.
\<close>

definition sample_mask :: image_Alpha where
  "sample_mask =
     \<lparr>Pix = replicate 8 0xFF, Stride = 2,
      Rect = \<lparr>Min_img = \<lparr>X_img = 0, Y_img = 0\<rparr>, Max_img = \<lparr>X_img = 2, Y_img = 4\<rparr>\<rparr>\<rparr>"

definition sample_face :: "bool \<Rightarrow> Face" where
  "sample_face whole =
     \<lparr>Glyph = (\<lambda>dot c.
        (\<lparr>Min_img = \<lparr>X_img = 1, Y_img = - 2\<rparr>, Max_img = \<lparr>X_img = 2, Y_img = 0\<rparr>\<rparr>,
         Alpha sample_mask, \<lparr>X_img = 0, Y_img = 0\<rparr>, 616, whole \<or> c \<noteq> 100)),
      GlyphBounds = (\<lambda>c.
        (\<lparr>Min_fx = \<lparr>X_fx = 80, Y_fx = - 100\<rparr>, Max_fx = \<lparr>X_fx = 130, Y_fx = 10\<rparr>\<rparr>, 616, True))\<rparr>"

definition sample_env :: "(bool, unit) env" where
  "sample_env =
     \<lparr>ReadFile = (\<lambda>name. if name = ''font.ttf'' then Inr [1, 2, 3]
                         else if name = ''partial.ttf'' then Inr [0]
                         else Inl (LibError ''no such file'')),
      truetype_Parse = (\<lambda>bytes. Inr (bytes \<noteq> [0])),
      truetype_NewFace = (\<lambda>ttfFont size. sample_face ttfFont),
      sfnt_Parse = (\<lambda>bytes. Inr ()),
      opentype_NewFace = (\<lambda>sfntFont size.
        Inr \<lparr>Height_fx = 768, Ascent_fx = 608, Descent_fx = 192, XHeight_fx = 320,
             CapHeight_fx = 448, CaretSlope_fx = \<lparr>X_img = 0, Y_img = 1\<rparr>\<rparr>),
      gl_GenTextures = (\<lambda>tr. 1)\<rparr>"

definition empty_world :: world where
  "empty_world = \<lparr>fontMap = None, trace = []\<rparr>"

definition sample_atlas :: FontInfo where
  "sample_atlas =
     \<lparr>texture = \<lparr>id_tex = 1, width_tex = 2, height_tex = 190, format_tex = 0x1903,
                  alignment_tex = 1, texelSize_tex = 1\<rparr>,
      runeMap = map (\<lambda>i. \<lparr>row = of_nat (2 * i), width = 1, height = 2, bearingX = 2,
                            bearingY = 1, advance = 10\<rparr>) [0..<95],
      metrics = \<lparr>Height = 12, Ascent = 19 / 2, Descent = 3, XHeight = 5, CapHeight = 7,
                  CaretSlope = \<lparr>X_img = 0, Y_img = 1\<rparr>\<rparr>\<rparr>"

section \<open>A sample font\<close>








section \<open>Fixed-point conversion\<close>

lemma sint_shift6: "sint (signed_drop_bit 6 (x :: 32 word)) = sint x div 64"
  by (simp add: sint_signed_drop_bit_eq drop_bit_eq_div)

lemma mask6: "(0x3F :: 32 word) = mask 6"
  by (simp add: mask_eq_exp_minus_1)

lemma sint_low6: "sint ((x :: 32 word) AND 0x3F) = sint x mod 64"
proof -
  have e: "x AND 0x3F = word_of_int (take_bit 6 (uint x))"
    unfolding mask6 by (rule and_mask_bintr)
  have b: "0 \<le> take_bit 6 (uint x)" "take_bit 6 (uint x) < 64"
    by (simp_all add: take_bit_eq_mod)
  have "sint (word_of_int (take_bit 6 (uint x)) :: 32 word) = take_bit 6 (uint x)"
    using b by (simp add: int_word_sint)
  moreover have "take_bit 6 (uint x) = take_bit 6 (sint x)"
    by (simp add: sint_uint take_bit_signed_take_bit)
  ultimately show ?thesis
    unfolding e by (simp add: take_bit_eq_mod)
qed


lemma int26_6ToFloat32_exact: "int26_6ToFloat32 x = of_int (sint x) / 64"
proof -
  have "(of_int (sint x) :: rat) = of_int (sint x div 64 * 64 + sint x mod 64)"
    by simp
  also have "\<dots> = of_int (sint x div 64) * 64 + of_int (sint x mod 64)"
    by (simp only: of_int_add of_int_mult of_int_numeral)
  finally have "(of_int (sint x) :: rat) / 64
      = of_int (sint x div 64) + of_int (sint x mod 64) / 64"
    by (simp add: add_divide_distrib)
  then show ?thesis
    unfolding int26_6ToFloat32_def float_of_int32_def sint_shift6 sint_low6 Let_def
    by simp
qed


section \<open>Strings in the supported range\<close>










section \<open>String metrics\<close>








section \<open>Text mesh\<close>


























section \<open>The atlas builder\<close>

lemma copyRows_result:
  assumes "copyRows glyph maskp rows (gb, ci) = Inr (gb', ci')"
  shows "ci' = ci + of_nat (length rows)
         \<and> int (length gb') = int (length gb) + int (length rows) * Stride glyph
         \<and> (rows = [] \<or> 0 \<le> Stride glyph)"
  using assms
proof (induction rows arbitrary: gb ci)
  case Nil
  then show ?case by simp
next
  case (Cons r rows)
  let ?beg = "(Y_img maskp + int r) * Stride glyph"
  let ?end = "(Y_img maskp + int r + 1) * Stride glyph"
  let ?gb = "gb @ take (nat (?end - ?beg)) (drop (nat ?beg) (Pix glyph))"
  have ok: "0 \<le> ?beg" "?beg \<le> ?end" "?end \<le> int (length (Pix glyph))"
    using Cons.prems by (simp_all add: Let_def split: if_splits)
  have rec: "copyRows glyph maskp rows (?gb, ci + 1) = Inr (gb', ci')"
    using Cons.prems ok by (simp add: Let_def)
  have d: "?end - ?beg = Stride glyph"
    by (simp add: algebra_simps)
  have s: "0 \<le> Stride glyph"
    using ok(2) d by linarith
  have "nat (Stride glyph) \<le> length (Pix glyph) - nat ?beg"
    using ok d s by linarith
  then have l: "int (length ?gb) = int (length gb) + Stride glyph"
    using s unfolding d by (simp add: min_def)
  from Cons.IH [OF rec] have ih: "ci' = ci + 1 + of_nat (length rows)"
    "int (length gb') = int (length ?gb) + int (length rows) * Stride glyph"
    by simp_all
  show ?case
    using ih(1) ih(2) l s by (simp add: algebra_simps)
qed

lemma glyphStep_result:
  assumes "glyphStep face fontName fontSize i b = Inr b'"
  shows "runeMap_b b' = (runeMap_b b)[i - minASCII :=
            makeRuneInfo (currentIndex_b b) (rectOf face i) (boundsOf face i) (advanceOf face i)]
         \<and> currentIndex_b b' = currentIndex_b b + of_nat (rowsOf face i)
         \<and> int (length (glyphBytes_b b'))
             = int (length (glyphBytes_b b)) + int (rowsOf face i) * strideOf face i
         \<and> (rowsOf face i = 0 \<or> 0 \<le> strideOf face i)"
proof -
  obtain roundedRect mask' maskp advance' okGlyph where
    g: "Glyph face \<lparr>X_fx = 0, Y_fx = 0\<rparr> (int i) = (roundedRect, mask', maskp, advance', okGlyph)"
    by (metis prod_cases5)
  obtain accurateRect ignored okBounds where
    gb: "GlyphBounds face (int i) = (accurateRect, ignored, okBounds)"
    by (metis prod_cases3)
  from assms g gb obtain glyph where m: "mask' = Alpha glyph"
    by (cases mask') (simp_all add: glyphStep_def Let_def split: if_splits)
  from assms g gb m obtain gb' ci' where
    c: "copyRows glyph maskp [0..<nat (Dy roundedRect)] (glyphBytes_b b, currentIndex_b b) = Inr (gb', ci')"
    and b': "b' = \<lparr>runeMap_b = (runeMap_b b)[i - minASCII :=
                     makeRuneInfo (currentIndex_b b) roundedRect accurateRect advance'],
                  glyphBytes_b = gb', currentIndex_b = ci'\<rparr>"
    by (auto simp: glyphStep_def Let_def split: if_splits sum.splits)
  have sel: "rectOf face i = roundedRect" "boundsOf face i = accurateRect"
    "advanceOf face i = advance'" "strideOf face i = Stride glyph"
    "rowsOf face i = nat (Dy roundedRect)"
    by (simp_all add: rectOf_def boundsOf_def advanceOf_def strideOf_def maskOf_def rowsOf_def g gb m)
  show ?thesis
    using copyRows_result [OF c] unfolding sel b' by simp
qed

lemma glyphLoop_result:
  assumes "glyphLoop face fontName fontSize is b tr = (Inr b', tr')"
  shows "runeMap_b b' = placed face is (currentIndex_b b) (runeMap_b b)
         \<and> currentIndex_b b' = currentIndex_b b + of_nat (sum_list (map (rowsOf face) is))
         \<and> int (length (glyphBytes_b b'))
             = int (length (glyphBytes_b b))
               + sum_list (map (\<lambda>i. int (rowsOf face i) * strideOf face i) is)
         \<and> list_all (\<lambda>i. rowsOf face i = 0 \<or> 0 \<le> strideOf face i) is"
  using assms
proof (induction "is" arbitrary: b tr)
  case Nil
  then show ?case by simp
next
  case (Cons i "is")
  from Cons.prems obtain b1 where
    s: "glyphStep face fontName fontSize i b = Inr b1"
    and l: "glyphLoop face fontName fontSize is b1 (tr @ [EvGlyph (int i)]) = (Inr b', tr')"
    by (cases "glyphStep face fontName fontSize i b") simp_all
  note st = glyphStep_result [OF s]
  note ih = Cons.IH [OF l]
  show ?case
    using st ih by (simp add: algebra_simps)
qed

lemma length_placed: "length (placed face is ci rm) = length rm"
  by (induction "is" arbitrary: ci rm) simp_all

lemma placed_untouched:
  assumes "\<forall>i \<in> set is. i - minASCII \<noteq> k"
  shows "placed face is ci rm ! k = rm ! k"
  using assms by (induction "is" arbitrary: ci rm) simp_all

lemma upt_add_Suc: "[lo..<lo + Suc n] = lo # [Suc lo..<Suc lo + n]"
  by (simp add: upt_conv_Cons)

lemma placed_nth:
  assumes "minASCII \<le> lo" "lo - minASCII + n \<le> length rm" "k < n"
  shows "placed face [lo..<lo + n] ci rm ! (lo - minASCII + k)
         = makeRuneInfo (ci + of_nat (sum_list (map (rowsOf face) [lo..<lo + k])))
             (rectOf face (lo + k)) (boundsOf face (lo + k)) (advanceOf face (lo + k))"
  using assms
proof (induction n arbitrary: lo ci rm k)
  case 0
  then show ?case by simp
next
  case (Suc n)
  let ?info = "makeRuneInfo ci (rectOf face lo) (boundsOf face lo) (advanceOf face lo)"
  let ?rm = "rm[lo - minASCII := ?info]"
  have p: "placed face [lo..<lo + Suc n] ci rm
           = placed face [Suc lo..<Suc lo + n] (ci + of_nat (rowsOf face lo)) ?rm"
    unfolding upt_add_Suc by simp
  show ?case
  proof (cases k)
    case 0
    have "\<forall>i \<in> set [Suc lo..<Suc lo + n]. i - minASCII \<noteq> lo - minASCII"
      using Suc.prems(1) by auto
    then have "placed face [Suc lo..<Suc lo + n] (ci + of_nat (rowsOf face lo)) ?rm ! (lo - minASCII)
               = ?rm ! (lo - minASCII)"
      by (rule placed_untouched)
    also have "\<dots> = ?info"
      using Suc.prems(2) by simp
    finally show ?thesis
      unfolding p 0 by simp
  next
    case (Suc j)
    have i: "lo - minASCII + k = Suc lo - minASCII + j"
      using Suc.prems(1) Suc by simp
    have "placed face [Suc lo..<Suc lo + n] (ci + of_nat (rowsOf face lo)) ?rm ! (Suc lo - minASCII + j)
          = makeRuneInfo (ci + of_nat (rowsOf face lo)
                + of_nat (sum_list (map (rowsOf face) [Suc lo..<Suc lo + j])))
              (rectOf face (Suc lo + j)) (boundsOf face (Suc lo + j)) (advanceOf face (Suc lo + j))"
      using Suc.prems Suc by (intro Suc.IH) simp_all
    moreover have "[lo..<lo + k] = lo # [Suc lo..<Suc lo + j]"
      unfolding Suc by (rule upt_add_Suc)
    ultimately show ?thesis
      unfolding p i by (simp add: Suc add.assoc)
  qed
qed

lemma finishFont_result:
  assumes "finishFont env face sfntFont fontName fontSize b tr = (Inr fi, tr')"
  shows "runeMap fi = runeMap_b b
         \<and> strideOf face 65 \<noteq> 0
         \<and> width_tex (texture fi) = word_of_int (strideOf face 65)
         \<and> height_tex (texture fi)
             = word_of_int (int (length (glyphBytes_b b)) sdiv strideOf face 65)"
proof -
  obtain roundedRect mask' maskp advance' aOK where
    g: "Glyph face \<lparr>X_fx = 0, Y_fx = 0\<rparr> 65 = (roundedRect, mask', maskp, advance', aOK)"
    by (metis prod_cases5)
  from assms g obtain glyph where m: "mask' = Alpha glyph"
    by (cases mask') (simp_all add: finishFont_def Let_def split: if_splits)
  have s: "strideOf face 65 = Stride glyph"
    by (simp add: strideOf_def maskOf_def g m)
  from assms show ?thesis
    unfolding finishFont_def g s m
    by (auto simp: Let_def NewTexture_def split: if_splits sum.splits)
qed

lemma buildFont_result:
  assumes "buildFont env fontName fontSize tr = (Inr fi, tr')"
  shows "\<exists>face sfntFont b tr2 tr3.
           font_face env fontName fontSize = Some face
           \<and> glyphLoop face fontName fontSize [minASCII..<MaxASCII] initial_build tr2 = (Inr b, tr3)
           \<and> finishFont env face sfntFont fontName fontSize b tr3 = (Inr fi, tr')"
proof -
  from assms obtain fontBytes where r: "ReadFile env fontName = Inr fontBytes"
    by (cases "ReadFile env fontName") (simp_all add: buildFont_def Let_def)
  from assms r obtain ttfFont where p: "truetype_Parse env fontBytes = Inr ttfFont"
    by (cases "truetype_Parse env fontBytes") (simp_all add: buildFont_def Let_def)
  from assms r p obtain sfntFont where q: "sfnt_Parse env fontBytes = Inr sfntFont"
    by (cases "sfnt_Parse env fontBytes") (simp_all add: buildFont_def Let_def)
  let ?face = "truetype_NewFace env ttfFont (float_of_int32 fontSize)"
  let ?tr2 = "(tr @ [EvReadFile fontName]) @ [EvReadFile fontName]"
  obtain res tr3 where
    l: "glyphLoop ?face fontName fontSize [minASCII..<MaxASCII] initial_build ?tr2 = (res, tr3)"
    by (cases "glyphLoop ?face fontName fontSize [minASCII..<MaxASCII] initial_build ?tr2")
  from assms r p q l obtain b where b: "res = Inr b"
    by (cases res) (simp_all add: buildFont_def Let_def)
  have "finishFont env ?face sfntFont fontName fontSize b tr3 = (Inr fi, tr')"
    using assms r p q l b by (simp add: buildFont_def Let_def)
  moreover have "font_face env fontName fontSize = Some ?face"
    by (simp add: font_face_def r p)
  ultimately show ?thesis
    using l b by blast
qed

lemma entries_initFontMap: "entries (initFontMap w) = entries w"
  by (cases "fontMap w") (simp_all add: initFontMap_def entries_def)

lemma trace_initFontMap: "trace (initFontMap w) = trace w"
  by (cases "fontMap w") (simp_all add: initFontMap_def)

lemma initFontMap_idem: "fontMap w = Some m \<Longrightarrow> initFontMap w = w"
  by (simp add: initFontMap_def)

lemma LoadFontTexture_hit:
  assumes "entries w (fontName, fontSize) = Some fi"
  shows "LoadFontTexture env fontName fontSize w = (Inr fi, initFontMap w)"
  using assms by (simp add: LoadFontTexture_def Let_def entries_initFontMap)

lemma LoadFontTexture_miss:
  assumes "entries w (fontName, fontSize) = None"
  shows "LoadFontTexture env fontName fontSize w
         = (case buildFont env fontName fontSize (trace w) of
              (Inl err, tr) \<Rightarrow> (Inl err, (initFontMap w)\<lparr>trace := tr\<rparr>)
            | (Inr InfoLoaded, tr) \<Rightarrow>
                (Inr InfoLoaded,
                 (initFontMap w)\<lparr>fontMap := Some ((entries w)((fontName, fontSize) \<mapsto> InfoLoaded)),
                   trace := tr\<rparr>))"
  unfolding LoadFontTexture_def Let_def entries_initFontMap trace_initFontMap
  using assms by simp

lemma LoadFontTexture_built:
  assumes "fst (LoadFontTexture env fontName fontSize w) = Inr fi"
    and "entries w (fontName, fontSize) = None"
  shows "\<exists>tr'. buildFont env fontName fontSize (trace w) = (Inr fi, tr')"
proof -
  obtain res tr where b: "buildFont env fontName fontSize (trace w) = (res, tr)"
    by (cases "buildFont env fontName fontSize (trace w)")
  show ?thesis
    using assms(1) unfolding LoadFontTexture_miss [OF assms(2)] b
    by (cases res) simp_all
qed

lemma built_runeMap:
  assumes "fst (LoadFontTexture env fontName fontSize w) = Inr fi"
    and "entries w (fontName, fontSize) = None"
  shows "\<exists>face b tr2 tr3.
           font_face env fontName fontSize = Some face
           \<and> glyphLoop face fontName fontSize [minASCII..<MaxASCII] initial_build tr2 = (Inr b, tr3)
           \<and> runeMap fi = runeMap_b b
           \<and> strideOf face 65 \<noteq> 0
           \<and> width_tex (texture fi) = word_of_int (strideOf face 65)
           \<and> height_tex (texture fi)
               = word_of_int (int (length (glyphBytes_b b)) sdiv strideOf face 65)"
proof -
  obtain tr' where "buildFont env fontName fontSize (trace w) = (Inr fi, tr')"
    using LoadFontTexture_built [OF assms] by blast
  then obtain face sfntFont b tr2 tr3 where
    f: "font_face env fontName fontSize = Some face"
    and l: "glyphLoop face fontName fontSize [minASCII..<MaxASCII] initial_build tr2 = (Inr b, tr3)"
    and e: "finishFont env face sfntFont fontName fontSize b tr3 = (Inr fi, tr')"
    using buildFont_result by blast
  show ?thesis
    using f l finishFont_result [OF e] by blast
qed

lemma range_as_count: "[minASCII..<MaxASCII] = [minASCII..<minASCII + 95]"
  by (simp add: minASCII_def MaxASCII_def)

lemma length_initial: "length (runeMap_b initial_build) = 95"
  by (simp add: initial_build_def minASCII_def MaxASCII_def)

lemma built_nth:
  assumes "fst (LoadFontTexture env fontName fontSize w) = Inr fi"
    and "entries w (fontName, fontSize) = None"
    and "font_face env fontName fontSize = Some face"
  shows "length (runeMap fi) = 95"
    and "k < 95 \<Longrightarrow> runeMap fi ! k
          = makeRuneInfo (of_nat (sum_list (map (rowsOf face) [minASCII..<minASCII + k])))
              (rectOf face (minASCII + k)) (boundsOf face (minASCII + k))
              (advanceOf face (minASCII + k))"
proof -
  obtain face' b tr2 tr3 where
    f: "font_face env fontName fontSize = Some face'"
    and l: "glyphLoop face' fontName fontSize [minASCII..<MaxASCII] initial_build tr2 = (Inr b, tr3)"
    and r: "runeMap fi = runeMap_b b"
    using built_runeMap [OF assms(1,2)] by blast
  have ff: "face' = face"
    using f assms(3) by simp
  have p: "runeMap fi = placed face [minASCII..<minASCII + 95] 0 (runeMap_b initial_build)"
    using glyphLoop_result [OF l] unfolding r ff range_as_count
    by (simp add: initial_build_def)
  show "length (runeMap fi) = 95"
    unfolding p length_placed by (rule length_initial)
  show "runeMap fi ! k
          = makeRuneInfo (of_nat (sum_list (map (rowsOf face) [minASCII..<minASCII + k])))
              (rectOf face (minASCII + k)) (boundsOf face (minASCII + k))
              (advanceOf face (minASCII + k))" if "k < 95"
    using placed_nth [of minASCII 95 "runeMap_b initial_build" k face 0] that
    unfolding p by (simp add: length_initial)
qed

lemma row_makeRuneInfo: "row (makeRuneInfo ci r a adv) = ci"
  by (simp add: makeRuneInfo_def)

lemma height_makeRuneInfo: "height (makeRuneInfo ci r a adv) = word_of_int (Dy r)"
  by (simp add: makeRuneInfo_def)

lemma height_well_formed:
  assumes "well_formed (rectOf face i)"
  shows "(word_of_int (Dy (rectOf face i)) :: 32 word) = of_nat (rowsOf face i)"
proof -
  have "0 \<le> Dy (rectOf face i)"
    using assms by (simp add: well_formed_def Dy_def)
  then show ?thesis
    by (simp add: rowsOf_def)
qed

lemma upt_add_snoc: "[lo..<lo + Suc k] = [lo..<lo + k] @ [lo + k]"
  by simp

text \<open>
  Claim C1. For every atlas that \<open>LoadFontTexture\<close> builds (the call succeeds and the key
  was not cached), from a rasterizer whose rounded rectangles are well-formed as
  \<open>image.Rectangle\<close> documents it: the glyph array has one record per character of the
  supported range, in ascending character code, the first row is 0 and every next row
  is the row before plus the height before. Rows are contiguous, with neither gap nor
  overlap.
\<close>

theorem LoadFontTexture_rows_contiguous:
  assumes "fst (LoadFontTexture env fontName fontSize w) = Inr fi"
    and "entries w (fontName, fontSize) = None"
    and "font_face env fontName fontSize = Some face"
    and "rects_well_formed face"
  shows "length (runeMap fi) = MaxASCII - minASCII
         \<and> rows_contiguous (runeMap fi)
         \<and> row (runeMap fi ! 0) = 0
         \<and> (\<forall>i. Suc i < length (runeMap fi) \<longrightarrow>
                row (runeMap fi ! Suc i) = row (runeMap fi ! i) + height (runeMap fi ! i))"
proof -
  note n = built_nth [OF assms(1-3)]
  have len: "length (runeMap fi) = 95"
    by (rule n(1))
  have r0: "row (runeMap fi ! 0) = 0"
    using n(2) [of 0] by (simp add: row_makeRuneInfo)
  have step: "row (runeMap fi ! Suc k) = row (runeMap fi ! k) + height (runeMap fi ! k)"
    if "k < 94" for k
  proof -
    have "minASCII \<le> minASCII + k \<and> minASCII + k < MaxASCII"
      using that by (simp add: minASCII_def MaxASCII_def)
    then have "minASCII + k \<in> set [minASCII..<MaxASCII]"
      by (simp only: set_upt atLeastLessThan_iff)
    then have wf: "well_formed (rectOf face (minASCII + k))"
      using assms(4) unfolding rects_well_formed_def list_all_iff by blast
    have a: "runeMap fi ! Suc k
          = makeRuneInfo (of_nat (sum_list (map (rowsOf face) [minASCII..<minASCII + Suc k])))
              (rectOf face (minASCII + Suc k)) (boundsOf face (minASCII + Suc k))
              (advanceOf face (minASCII + Suc k))"
      using that by (intro n(2)) simp
    have b: "runeMap fi ! k
          = makeRuneInfo (of_nat (sum_list (map (rowsOf face) [minASCII..<minASCII + k])))
              (rectOf face (minASCII + k)) (boundsOf face (minASCII + k))
              (advanceOf face (minASCII + k))"
      using that by (intro n(2)) simp
    show ?thesis
      unfolding a b row_makeRuneInfo height_makeRuneInfo height_well_formed [OF wf] upt_add_snoc
      by simp
  qed
  have "list_all (\<lambda>i. row (runeMap fi ! Suc i) = row (runeMap fi ! i) + height (runeMap fi ! i))
          [0..<length (runeMap fi) - 1]"
    unfolding list_all_iff len using step by simp
  moreover have "runeMap fi \<noteq> []"
    using len by auto
  ultimately have c: "rows_contiguous (runeMap fi)"
    using r0 by (simp add: rows_contiguous_def)
  have l: "length (runeMap fi) = MaxASCII - minASCII"
    using len by (simp add: minASCII_def MaxASCII_def)
  have "\<forall>i. Suc i < length (runeMap fi) \<longrightarrow>
          row (runeMap fi ! Suc i) = row (runeMap fi ! i) + height (runeMap fi ! i)"
    unfolding len using step by simp
  then show ?thesis
    using l c r0 by blast
qed

lemma sdiv_exact:
  assumes "0 \<le> R" and "R = 0 \<or> 0 < s"
  shows "(R * s) sdiv s = (R :: int)"
proof (cases "R = 0")
  case True
  then show ?thesis
    by (simp add: signed_divide_int_def)
next
  case False
  then have "0 < R" "0 < s"
    using assms by simp_all
  then show ?thesis
    by (simp add: signed_divide_int_def sgn_mult abs_mult)
qed

lemma sum_rows_stride:
  assumes "list_all (\<lambda>i. strideOf face i = s) is"
  shows "sum_list (map (\<lambda>i. int (rowsOf face i) * strideOf face i) is)
         = int (sum_list (map (rowsOf face) is)) * s"
  using assms by (induction "is") (simp_all add: algebra_simps)

lemma some_rows:
  assumes "sum_list (map (rowsOf face) is) \<noteq> 0"
  shows "\<exists>i \<in> set is. rowsOf face i \<noteq> 0"
  using assms by (induction "is") auto

text \<open>
  Claim C8. After a successful build from a rasterizer whose masks all have the byte
  stride \<open>s\<close>, the width of the created texture is \<open>s\<close> and its height is the final
  running row count of the glyph loop, the number of bitmap rows appended over all
  glyphs of the supported range; the byte buffer holds that many rows of \<open>s\<close> bytes.
\<close>

theorem LoadFontTexture_texture_dimensions:
  assumes "fst (LoadFontTexture env fontName fontSize w) = Inr fi"
    and "entries w (fontName, fontSize) = None"
    and "font_face env fontName fontSize = Some face"
    and "uniform_stride face s"
  shows "width_tex (texture fi) = word_of_int s
         \<and> height_tex (texture fi) = of_nat (sum_list (map (rowsOf face) [minASCII..<MaxASCII]))
         \<and> (\<exists>b tr tr'. glyphLoop face fontName fontSize [minASCII..<MaxASCII] initial_build tr
                          = (Inr b, tr')
               \<and> height_tex (texture fi) = currentIndex_b b
               \<and> int (length (glyphBytes_b b))
                   = int (sum_list (map (rowsOf face) [minASCII..<MaxASCII])) * s)"
proof -
  let ?R = "sum_list (map (rowsOf face) [minASCII..<MaxASCII])"
  obtain face' b tr2 tr3 where
    f: "font_face env fontName fontSize = Some face'"
    and l: "glyphLoop face' fontName fontSize [minASCII..<MaxASCII] initial_build tr2 = (Inr b, tr3)"
    and nz: "strideOf face' 65 \<noteq> 0"
    and wd: "width_tex (texture fi) = word_of_int (strideOf face' 65)"
    and ht: "height_tex (texture fi)
               = word_of_int (int (length (glyphBytes_b b)) sdiv strideOf face' 65)"
    using built_runeMap [OF assms(1,2)] by blast
  have ff: "face' = face"
    using f assms(3) by simp
  note u = assms(4) [unfolded uniform_stride_def]
  have "65 \<in> set [minASCII..<MaxASCII]"
    by (simp add: minASCII_def MaxASCII_def)
  then have sA: "strideOf face 65 = s"
    using u unfolding list_all_iff by blast
  note g = glyphLoop_result [OF l [unfolded ff]]
  have ci: "currentIndex_b b = of_nat ?R"
    using g by (simp add: initial_build_def)
  have len: "int (length (glyphBytes_b b)) = int ?R * s"
    using g sum_rows_stride [OF u] by (simp add: initial_build_def)
  have "int ?R = 0 \<or> 0 < s"
  proof (cases "?R = 0")
    case True
    show ?thesis
      by (rule disjI1) (simp only: True of_nat_0)
  next
    case False
    then obtain i where i: "i \<in> set [minASCII..<MaxASCII]" "rowsOf face i \<noteq> 0"
      using some_rows by blast
    have "rowsOf face i = 0 \<or> 0 \<le> strideOf face i"
      using g i(1) unfolding list_all_iff by blast
    moreover have "strideOf face i = s"
      using u i(1) unfolding list_all_iff by blast
    ultimately have "0 < s"
      using i(2) nz sA ff by simp
    then show ?thesis ..
  qed
  then have q: "int (length (glyphBytes_b b)) sdiv s = int ?R"
    unfolding len by (intro sdiv_exact) simp_all
  have h: "height_tex (texture fi) = of_nat ?R"
    unfolding ht ff sA q by simp
  have w: "width_tex (texture fi) = word_of_int s"
    unfolding wd ff sA ..
  have "glyphLoop face fontName fontSize [minASCII..<MaxASCII] initial_build tr2 = (Inr b, tr3)
          \<and> height_tex (texture fi) = currentIndex_b b
          \<and> int (length (glyphBytes_b b)) = int ?R * s"
    using l [unfolded ff] h ci len by simp
  then show ?thesis
    using w h by blast
qed

section \<open>The font cache\<close>

lemma fontMap_initFontMap: "fontMap (initFontMap w) = Some (entries w)"
  by (cases "fontMap w") (simp_all add: initFontMap_def entries_def)

lemma LoadFontTexture_world:
  "fontMap (snd (LoadFontTexture env fontName fontSize w)) \<noteq> None
   \<and> (\<forall>k v. entries w k = Some v \<longrightarrow> entries (snd (LoadFontTexture env fontName fontSize w)) k = Some v)"
proof (cases "entries w (fontName, fontSize)")
  case (Some fi)
  show ?thesis
    unfolding LoadFontTexture_hit [OF Some]
    by (simp add: fontMap_initFontMap entries_initFontMap)
next
  case None
  obtain res tr where b: "buildFont env fontName fontSize (trace w) = (res, tr)"
    by (cases "buildFont env fontName fontSize (trace w)")
  show ?thesis
    unfolding LoadFontTexture_miss [OF None] b using None
    by (cases res) (auto simp: fontMap_initFontMap entries_def)
qed

lemma LoadFontTexture_stores:
  assumes "fst (LoadFontTexture env fontName fontSize w) = Inr fi"
  shows "entries (snd (LoadFontTexture env fontName fontSize w)) (fontName, fontSize) = Some fi"
proof (cases "entries w (fontName, fontSize)")
  case (Some fi')
  show ?thesis
    using assms Some unfolding LoadFontTexture_hit [OF Some]
    by (simp add: entries_initFontMap)
next
  case None
  obtain res tr where b: "buildFont env fontName fontSize (trace w) = (res, tr)"
    by (cases "buildFont env fontName fontSize (trace w)")
  show ?thesis
    using assms unfolding LoadFontTexture_miss [OF None] b
    by (cases res) (simp_all add: entries_def)
qed

lemma calls_keep:
  assumes "fontMap w \<noteq> None" "entries w k = Some v"
  shows "fontMap (calls cs w) \<noteq> None \<and> entries (calls cs w) k = Some v"
  using assms
proof (induction cs arbitrary: w)
  case Nil
  then show ?case by simp
next
  case (Cons c cs)
  obtain env fontName fontSize where c: "c = (env, fontName, fontSize)"
    by (cases c)
  have a: "fontMap (snd (LoadFontTexture env fontName fontSize w)) \<noteq> None"
    using LoadFontTexture_world by blast
  have b: "entries (snd (LoadFontTexture env fontName fontSize w)) k = Some v"
    using LoadFontTexture_world Cons.prems(2) by blast
  show ?case
    unfolding c calls.simps by (rule Cons.IH [OF a b])
qed

text \<open>
  Claim C5. After a call of \<open>LoadFontTexture\<close> has succeeded for a key, a later call for
  the same key, whatever other calls were made in between and whatever the files and
  the rasterizer have become, returns the very same \<open>FontInfo\<close> (so identical glyph
  metrics and texture dimensions) and leaves the state, with its trace of file reads,
  rasterizer calls and texture uploads, as it found it: the cache is hit and none of
  the build work is done again.
\<close>

theorem LoadFontTexture_cached:
  assumes "fst (LoadFontTexture env fontName fontSize w) = Inr fi"
  shows "LoadFontTexture env' fontName fontSize
           (calls cs (snd (LoadFontTexture env fontName fontSize w)))
         = (Inr fi, calls cs (snd (LoadFontTexture env fontName fontSize w)))"
proof -
  let ?w1 = "snd (LoadFontTexture env fontName fontSize w)"
  have "fontMap ?w1 \<noteq> None"
    using LoadFontTexture_world by blast
  moreover have "entries ?w1 (fontName, fontSize) = Some fi"
    by (rule LoadFontTexture_stores [OF assms])
  ultimately have k: "fontMap (calls cs ?w1) \<noteq> None"
    "entries (calls cs ?w1) (fontName, fontSize) = Some fi"
    using calls_keep by blast+
  from k(1) have "initFontMap (calls cs ?w1) = calls cs ?w1"
    by (auto simp: initFontMap_def)
  then show ?thesis
    using LoadFontTexture_hit [OF k(2), of env'] by simp
qed

text \<open>
  Claim C6. Whenever \<open>LoadFontTexture\<close> fails for a key, with an error or a panic, the
  entries of the font cache are the ones from before the call and there is none for
  that key: no partial atlas is stored. (The lemmas after the theorem show that a
  read error, a parse error and a missing glyph make the build fail.)
\<close>

theorem LoadFontTexture_error_keeps_cache:
  assumes "fst (LoadFontTexture env fontName fontSize w) = Inl err"
  shows "entries (snd (LoadFontTexture env fontName fontSize w)) = entries w
         \<and> entries (snd (LoadFontTexture env fontName fontSize w)) (fontName, fontSize) = None"
proof (cases "entries w (fontName, fontSize)")
  case (Some fi)
  show ?thesis
    using assms unfolding LoadFontTexture_hit [OF Some] by simp
next
  case None
  obtain res tr where b: "buildFont env fontName fontSize (trace w) = (res, tr)"
    by (cases "buildFont env fontName fontSize (trace w)")
  have e: "entries ((initFontMap w)\<lparr>trace := tr\<rparr>) = entries w"
    by (simp add: entries_def fontMap_initFontMap)
  show ?thesis
    using assms None unfolding LoadFontTexture_miss [OF None] b
    by (cases res) (simp_all add: e)
qed

lemma buildFont_read_error:
  assumes "ReadFile env fontName = Inl err"
  shows "fst (buildFont env fontName fontSize tr) = Inl err"
  using assms by (simp add: buildFont_def Let_def)

lemma buildFont_parse_error:
  assumes "ReadFile env fontName = Inr fontBytes"
    and "truetype_Parse env fontBytes = Inl err \<or> sfnt_Parse env fontBytes = Inl err"
  shows "\<exists>err'. fst (buildFont env fontName fontSize tr) = Inl err'"
  using assms by (auto simp: buildFont_def Let_def split: sum.splits)

lemma glyphStep_missing:
  assumes "\<not> snd (snd (snd (snd (Glyph face \<lparr>X_fx = 0, Y_fx = 0\<rparr> (int i)))))"
  shows "glyphStep face fontName fontSize i b = Inl (WrapErrNoFontGlyph fontName fontSize (int i))"
proof -
  obtain roundedRect mask' maskp advance' okGlyph where
    g: "Glyph face \<lparr>X_fx = 0, Y_fx = 0\<rparr> (int i) = (roundedRect, mask', maskp, advance', okGlyph)"
    by (metis prod_cases5)
  have "\<not> okGlyph"
    using assms unfolding g by simp
  then show ?thesis
    by (simp add: glyphStep_def Let_def g)
qed

lemma glyphLoop_missing:
  assumes "i \<in> set is"
    and "\<not> snd (snd (snd (snd (Glyph face \<lparr>X_fx = 0, Y_fx = 0\<rparr> (int i)))))"
  shows "\<exists>err. fst (glyphLoop face fontName fontSize is b tr) = Inl err"
  using assms(1)
proof (induction "is" arbitrary: b tr)
  case Nil
  then show ?case by simp
next
  case (Cons j js)
  show ?case
  proof (cases "glyphStep face fontName fontSize j b")
    case (Inl e)
    then show ?thesis by simp
  next
    case (Inr b')
    then have "j \<noteq> i"
      using glyphStep_missing [OF assms(2), of fontName fontSize b] by auto
    then have "i \<in> set js"
      using Cons.prems by simp
    then show ?thesis
      using Cons.IH Inr by simp
  qed
qed

lemma buildFont_missing_glyph:
  assumes "font_face env fontName fontSize = Some face"
    and "i \<in> set [minASCII..<MaxASCII]"
    and "\<not> snd (snd (snd (snd (Glyph face \<lparr>X_fx = 0, Y_fx = 0\<rparr> (int i)))))"
  shows "\<exists>err. fst (buildFont env fontName fontSize tr) = Inl err"
proof -
  from assms(1) obtain fontBytes ttfFont where
    r: "ReadFile env fontName = Inr fontBytes"
    and p: "truetype_Parse env fontBytes = Inr ttfFont"
    and f: "face = truetype_NewFace env ttfFont (float_of_int32 fontSize)"
    by (auto simp: font_face_def split: sum.splits)
  let ?tr2 = "(tr @ [EvReadFile fontName]) @ [EvReadFile fontName]"
  obtain err where "fst (glyphLoop face fontName fontSize [minASCII..<MaxASCII] initial_build ?tr2) = Inl err"
    using glyphLoop_missing [OF assms(2,3)] by blast
  then obtain tr3 where
    l: "glyphLoop face fontName fontSize [minASCII..<MaxASCII] initial_build ?tr2 = (Inl err, tr3)"
    by (cases "glyphLoop face fontName fontSize [minASCII..<MaxASCII] initial_build ?tr2") simp
  show ?thesis
  proof (cases "sfnt_Parse env fontBytes")
    case (Inl e)
    then show ?thesis
      using r p by (simp add: buildFont_def Let_def)
  next
    case (Inr sfntFont)
    then show ?thesis
      using r p l unfolding f by (simp add: buildFont_def Let_def)
  qed
qed

section \<open>Runs of the atlas builder\<close>

lemma sample_build: "fst (LoadFontTexture sample_env ''font.ttf'' 12 empty_world) = Inr sample_atlas"
  by code_simp

lemma math_Round_of_int: "math_Round (of_int n) = of_int n"
proof -
  have "\<lfloor>(of_int n :: rat) + 1 / 2\<rfloor> = n"
    by (rule floor_unique) simp_all
  moreover have "\<lceil>(of_int n :: rat) - 1 / 2\<rceil> = n"
    by (rule ceiling_unique) simp_all
  ultimately show ?thesis
    by (simp add: math_Round_def)
qed

lemma Ceil_26_6_div:
  assumes "sint x \<le> 2 ^ 31 - 64"
  shows "Ceil_26_6 x = (sint x + 63) div 64"
proof -
  have lo: "- (2 ^ 31) \<le> sint x"
    using sint_ge [of x] by simp
  have "x + 0x3f = word_of_int (sint x + 63)"
    by simp
  then have "sint (x + 0x3f) = sint x + 63"
    using assms lo by (simp add: sint_sbintrunc' signed_take_bit_int_eq_self del: of_int_add)
  then show ?thesis
    by (simp add: Ceil_26_6_def sint_shift6)
qed

lemma bearingX_makeRuneInfo:
  "bearingX (makeRuneInfo ci r a adv) = of_int (Ceil_26_6 (X_fx (Min_fx a)))"
  by (simp add: makeRuneInfo_def math_Round_of_int)

lemma advance_makeRuneInfo:
  "advance (makeRuneInfo ci r a adv) = math_Round (of_int (sint adv) / 64)"
  by (simp add: makeRuneInfo_def int26_6ToFloat32_exact)

lemma empty_miss: "entries empty_world k = None"
  by (simp add: entries_def empty_world_def)

lemma sample_font_face: "font_face sample_env ''font.ttf'' 12 = Some (sample_face True)"
  by (simp add: font_face_def sample_env_def)

lemma sample_well_formed: "rects_well_formed (sample_face True)"
  by code_simp

lemma sample_uniform: "uniform_stride (sample_face True) 2"
  by code_simp

theorem LoadFontTexture_rows_contiguous_witness:
  "fst (LoadFontTexture sample_env ''font.ttf'' 12 empty_world) = Inr sample_atlas
   \<and> entries empty_world (''font.ttf'', 12) = None
   \<and> font_face sample_env ''font.ttf'' 12 = Some (sample_face True)
   \<and> rects_well_formed (sample_face True)
   \<and> length (runeMap sample_atlas) = MaxASCII - minASCII
   \<and> rows_contiguous (runeMap sample_atlas)"
  using LoadFontTexture_rows_contiguous
    [OF sample_build empty_miss sample_font_face sample_well_formed]
    sample_build empty_miss sample_font_face sample_well_formed
  by blast

theorem LoadFontTexture_texture_dimensions_witness:
  "fst (LoadFontTexture sample_env ''font.ttf'' 12 empty_world) = Inr sample_atlas
   \<and> entries empty_world (''font.ttf'', 12) = None
   \<and> font_face sample_env ''font.ttf'' 12 = Some (sample_face True)
   \<and> uniform_stride (sample_face True) 2
   \<and> width_tex (texture sample_atlas) = word_of_int 2
   \<and> height_tex (texture sample_atlas)
       = of_nat (sum_list (map (rowsOf (sample_face True)) [minASCII..<MaxASCII]))
   \<and> (\<exists>b tr tr'. glyphLoop (sample_face True) ''font.ttf'' 12 [minASCII..<MaxASCII]
                    initial_build tr = (Inr b, tr')
         \<and> height_tex (texture sample_atlas) = currentIndex_b b
         \<and> int (length (glyphBytes_b b))
             = int (sum_list (map (rowsOf (sample_face True)) [minASCII..<MaxASCII])) * 2)"
  using LoadFontTexture_texture_dimensions
    [OF sample_build empty_miss sample_font_face sample_uniform]
    sample_build empty_miss sample_font_face sample_uniform
  by blast

theorem LoadFontTexture_cached_witness:
  "fst (LoadFontTexture sample_env ''font.ttf'' 12 empty_world) = Inr sample_atlas
   \<and> LoadFontTexture sample_env ''font.ttf'' 12
         (calls [(sample_env, ''partial.ttf'', 12)]
            (snd (LoadFontTexture sample_env ''font.ttf'' 12 empty_world)))
       = (Inr sample_atlas,
          calls [(sample_env, ''partial.ttf'', 12)]
            (snd (LoadFontTexture sample_env ''font.ttf'' 12 empty_world)))"
  using LoadFontTexture_cached [OF sample_build, of sample_env "[(sample_env, ''partial.ttf'', 12)]"]
    sample_build
  by blast

lemma sample_missing:
  "fst (LoadFontTexture sample_env ''partial.ttf'' 12 empty_world)
   = Inl (WrapErrNoFontGlyph ''partial.ttf'' 12 100)"
  by code_simp

theorem LoadFontTexture_error_keeps_cache_witness:
  "fst (LoadFontTexture sample_env ''partial.ttf'' 12 empty_world)
     = Inl (WrapErrNoFontGlyph ''partial.ttf'' 12 100)
   \<and> entries (snd (LoadFontTexture sample_env ''partial.ttf'' 12 empty_world)) = entries empty_world
   \<and> entries (snd (LoadFontTexture sample_env ''partial.ttf'' 12 empty_world)) (''partial.ttf'', 12)
       = None"
  using LoadFontTexture_error_keeps_cache [OF sample_missing] sample_missing
  by blast

lemma built_metrics:
  assumes "fst (LoadFontTexture env fontName fontSize w) = Inr fi"
    and "entries w (fontName, fontSize) = None"
    and "font_face env fontName fontSize = Some face"
    and "k < 95"
  shows "advance (runeMap fi ! k)
           = math_Round (of_int (sint (advanceOf face (minASCII + k))) / 64)"
    and "bearingX (runeMap fi ! k)
           = of_int (Ceil_26_6 (X_fx (Min_fx (boundsOf face (minASCII + k)))))"
  unfolding built_nth(2) [OF assms] advance_makeRuneInfo bearingX_makeRuneInfo
  by (rule refl)+

text \<open>
  Claim C4 holds for the advance (lemma \<open>advance_makeRuneInfo\<close>) and fails for
  \<open>bearingX\<close>: line 218 applies \<open>math.Round\<close> to \<open>accurateRect.Min.X.Ceil()\<close>, which is a
  whole number already, so the stored value is the ceiling of the precise left edge.
  For the sample rasterizer the precise left edge is 80/64 = 1.25 pixels; rounded to
  the nearest integer that is 1, and the atlas stores 2.
\<close>

theorem bearingX_is_ceiling_at_sample:
  "X_fx (Min_fx (boundsOf (sample_face True) minASCII)) = 80
   \<and> int26_6ToFloat32 80 = 5 / 4
   \<and> math_Round (5 / 4) = 1
   \<and> fst (LoadFontTexture sample_env ''font.ttf'' 12 empty_world) = Inr sample_atlas
   \<and> bearingX (runeMap sample_atlas ! 0) = 2"
proof -
  have "X_fx (Min_fx (boundsOf (sample_face True) minASCII)) = 80"
    by (simp add: boundsOf_def sample_face_def)
  moreover have "int26_6ToFloat32 80 = 5 / 4"
    by (simp add: int26_6ToFloat32_exact)
  moreover have "\<lfloor>(5 / 4 :: rat) + 1 / 2\<rfloor> = 1"
    by (rule floor_unique) simp_all
  then have "math_Round (5 / 4) = 1"
    by (simp add: math_Round_def)
  moreover have "bearingX (runeMap sample_atlas ! 0) = 2"
    by (simp add: sample_atlas_def)
  ultimately show ?thesis
    using sample_build by blast
qed

end
